theory Spec2Isabelle
  imports Main
begin

section \<open>The analysis resource of the Express server\<close>

text \<open>
  A shallow embedding of the long-running server variant (the Express application with the
  in-memory \<^verbatim>\<open>analyses\<close> map and the four handlers on \<^verbatim>\<open>/api/analyze\<close>).
  Every handler becomes a function from the request's fields and the store to the response,
  the store afterwards, and the list of calls made to the provider. A request is handled
  in one step: what another request does to the store while a handler awaits the provider
  is not part of the model.
\<close>

subsection \<open>JavaScript strings and truthiness\<close>

text \<open>
  A \<^typ>\<open>char\<close> stands for one code unit below 256. \<^verbatim>\<open>String.prototype.trim\<close> strips
  white space and line terminators from both ends; of these, the code units below 256 are
  TAB, LF, VT, FF, CR, SPACE and NBSP.
\<close>

definition is_white_space :: "char \<Rightarrow> bool" where
  "is_white_space c \<longleftrightarrow>
     c = CHR 0x09 \<or> c = CHR 0x0A \<or> c = CHR 0x0B \<or> c = CHR 0x0C \<or> c = CHR 0x0D \<or>
     c = CHR 0x20 \<or> c = CHR 0xA0"

definition trim :: "string \<Rightarrow> string" where
  "trim s = rev (dropWhile is_white_space (rev (dropWhile is_white_space s)))"

text \<open>
  The request fields are typed \<^verbatim>\<open>string | undefined\<close> in the source
  (\<^verbatim>\<open>req.body as { id?: string; text?: string }\<close>, \<^verbatim>\<open>req.query.id as string | undefined\<close>),
  and so is \<^verbatim>\<open>process.env.GEMINI_API_KEY\<close>: \<^term>\<open>None\<close> is \<^verbatim>\<open>undefined\<close>.
  The tests \<^verbatim>\<open>if (id)\<close>, \<^verbatim>\<open>if (!id)\<close>, \<^verbatim>\<open>!text\<close> are JavaScript truthiness: both
  \<^verbatim>\<open>undefined\<close> and the empty string are falsy. \<open>truthy\<close> returns the string when
  it is truthy. On a value of this type the test \<^verbatim>\<open>typeof text !== 'string'\<close> adds nothing
  to \<^verbatim>\<open>!text\<close>. The body of a creation or update request is a JSON object, as
  \<^verbatim>\<open>express.json()\<close> leaves it in \<^verbatim>\<open>req.body\<close>.
\<close>

fun truthy :: "string option \<Rightarrow> string option" where
  "truthy None = None"
| "truthy (Some s) = (if s = [] then None else Some s)"

text \<open>\<^verbatim>\<open>ToString\<close>, which \<^verbatim>\<open>JSON.parse\<close> applies to its argument.\<close>

fun ToString :: "string option \<Rightarrow> string" where
  "ToString None = ''undefined''"
| "ToString (Some s) = s"

subsection \<open>The store: a JavaScript Map, in insertion order\<close>

text \<open>
  The value stored by both writers is the object literal \<^verbatim>\<open>{ id, timestamp, analysis }\<close>;
  \<^verbatim>\<open>analysis\<close> is whatever \<^verbatim>\<open>JSON.parse\<close> returned (type \<^verbatim>\<open>any\<close>), here the type
  parameter \<open>'j\<close>.
\<close>

record 'j analysis_record =
  id' :: string
  timestamp :: string
  analysis :: 'j

text \<open>
  A \<^verbatim>\<open>Map\<close> iterates in insertion order, so the store is an association list, oldest
  entry first. \<^verbatim>\<open>set\<close> on a key already there replaces the value in place, on a new key
  it appends; \<^verbatim>\<open>delete\<close> removes the entry of the key, so that the key is absent
  afterwards. A list stands for a \<^verbatim>\<open>Map\<close> when its keys are distinct; the operations
  keep them so (\<open>distinct_map_set\<close>, \<open>distinct_map_delete\<close>).
\<close>

type_synonym 'j store = "(string \<times> 'j analysis_record) list"

fun map_get :: "('k \<times> 'v) list \<Rightarrow> 'k \<Rightarrow> 'v option" where
  "map_get [] k = None"
| "map_get ((k', v) # m) k = (if k' = k then Some v else map_get m k)"

fun map_has :: "('k \<times> 'v) list \<Rightarrow> 'k \<Rightarrow> bool" where
  "map_has [] k = False"
| "map_has ((k', v) # m) k = (if k' = k then True else map_has m k)"

fun map_set :: "('k \<times> 'v) list \<Rightarrow> 'k \<Rightarrow> 'v \<Rightarrow> ('k \<times> 'v) list" where
  "map_set [] k v = [(k, v)]"
| "map_set ((k', v') # m) k v = (if k' = k then (k, v) # m else (k', v') # map_set m k v)"

fun map_delete :: "('k \<times> 'v) list \<Rightarrow> 'k \<Rightarrow> ('k \<times> 'v) list" where
  "map_delete [] k = []"
| "map_delete ((k', v') # m) k =
     (if k' = k then map_delete m k else (k', v') # map_delete m k)"

definition map_keys :: "('k \<times> 'v) list \<Rightarrow> 'k list" where
  "map_keys m = map fst m"

definition map_values :: "('k \<times> 'v) list \<Rightarrow> 'v list" where
  "map_values m = map snd m"

subsection \<open>The environment of one request\<close>

text \<open>
  What a \<^verbatim>\<open>catch (error)\<close> receives: an \<^verbatim>\<open>Error\<close> with its message, or any other value.
  The handlers report \<^verbatim>\<open>error instanceof Error ? error.message : 'Unknown error'\<close>.
\<close>

datatype thrown = Error string | NotAnError

fun error_message :: "thrown \<Rightarrow> string" where
  "error_message (Error m) = m"
| "error_message NotAnError = ''Unknown error''"

text \<open>
  Everything a handler reads from outside the store:
  \<^item> \<open>GEMINI_API_KEY\<close>: \<^verbatim>\<open>process.env.GEMINI_API_KEY\<close>;
  \<^item> \<open>generateContent\<close>: the awaited call \<^verbatim>\<open>ai.models.generateContent\<close> as a function of the
    request's text (model name, prompt template around the text and response schema are
    constants of the source); it throws (\<open>Inl\<close>) or returns a response whose \<^verbatim>\<open>text\<close> is
    a string or \<^verbatim>\<open>undefined\<close> (\<open>Inr\<close>);
  \<^item> \<open>JSON_parse\<close>: \<^verbatim>\<open>JSON.parse\<close> on a string, throwing a \<^verbatim>\<open>SyntaxError\<close> (\<open>Inl\<close>) or
    returning the parsed value;
  \<^item> \<open>randomUUID\<close>: the value \<^verbatim>\<open>randomUUID()\<close> returns in this request;
  \<^item> \<open>toISOString\<close>: the value of \<^verbatim>\<open>new Date().toISOString()\<close> in this request.
\<close>

record 'j env =
  GEMINI_API_KEY :: "string option"
  generateContent :: "string \<Rightarrow> thrown + string option"
  JSON_parse :: "string \<Rightarrow> thrown + 'j"
  randomUUID :: string
  toISOString :: string

subsection \<open>Responses\<close>

text \<open>
  The bodies the handlers send: \<^verbatim>\<open>{ message }\<close>, \<^verbatim>\<open>{ message, error }\<close>, a stored record,
  \<^verbatim>\<open>{ analyses: [{ id, timestamp }, ...] }\<close>, the provider's text sent as it is
  (\<^verbatim>\<open>res.send(response.text)\<close>), and no body (\<^verbatim>\<open>res.sendStatus(204)\<close>).
\<close>

datatype 'j body =
    Message string
  | MessageError string string
  | Item "'j analysis_record"
  | Analyses "(string \<times> string) list"
  | Raw "string option"
  | NoContent

record 'j response =
  status :: nat
  location :: "string option"
  body :: "'j body"

text \<open>\<^verbatim>\<open>res.status(n).json(b)\<close>, with no \<^verbatim>\<open>Location\<close> header set.\<close>

definition json :: "nat \<Rightarrow> 'j body \<Rightarrow> 'j response" where
  "json n b = \<lparr>status = n, location = None, body = b\<rparr>"

text \<open>
  What a handler leaves behind: the response, the store, and the texts for which the
  provider was called, in order.
\<close>

record 'j outcome =
  res :: "'j response"
  analyses :: "'j store"
  calls :: "string list"

definition not_found :: "string \<Rightarrow> string" where
  "not_found i = ''Analysis with id '' @ i @ '' not found.''"

definition text_required :: string where
  \<open>text_required = ''"text" field is required and cannot be empty.''\<close>

definition id_required :: string where
  \<open>id_required = ''"id" field is required.''\<close>

definition id_parameter_required :: string where
  \<open>id_parameter_required = ''"id" parameter or body field is required.''\<close>

definition key_missing :: string where
  "key_missing = ''Internal Server Error: API key not configured.''"

subsection \<open>GET /api/analyze\<close>

definition get_analyze :: "string option \<Rightarrow> 'j store \<Rightarrow> 'j outcome" where
  "get_analyze qid s =
     (case truthy qid of
        Some i \<Rightarrow>
          (case map_get s i of
             None \<Rightarrow> \<lparr>res = json 404 (Message (not_found i)), analyses = s, calls = []\<rparr>
           | Some item \<Rightarrow> \<lparr>res = json 200 (Item item), analyses = s, calls = []\<rparr>)
      | None \<Rightarrow>
          \<lparr>res = json 200 (Analyses (map (\<lambda>a. (id' a, timestamp a)) (map_values s))),
           analyses = s, calls = []\<rparr>)"

subsection \<open>POST /api/analyze\<close>

definition post_analyze :: "'j env \<Rightarrow> string option \<Rightarrow> 'j store \<Rightarrow> 'j outcome" where
  "post_analyze e text s =
     (case truthy (GEMINI_API_KEY e) of
        None \<Rightarrow> \<lparr>res = json 500 (Message key_missing), analyses = s, calls = []\<rparr>
      | Some apiKey \<Rightarrow>
          (case truthy text of
             None \<Rightarrow> \<lparr>res = json 400 (Message text_required), analyses = s, calls = []\<rparr>
           | Some t \<Rightarrow>
               if trim t = [] then
                 \<lparr>res = json 400 (Message text_required), analyses = s, calls = []\<rparr>
               else
                 (case generateContent e t of
                    Inl error \<Rightarrow>
                      \<lparr>res = json 500 (MessageError ''Failed to analyze text.'' (error_message error)),
                       analyses = s, calls = [t]\<rparr>
                  | Inr response_text \<Rightarrow>
                      (let analysisId = randomUUID e in
                       case JSON_parse e (ToString response_text) of
                         Inl ex \<Rightarrow>
                           \<lparr>res = json 200 (Raw response_text), analyses = s, calls = [t]\<rparr>
                       | Inr parsed \<Rightarrow>
                           (let fullResponse =
                                  \<lparr>id' = analysisId, timestamp = toISOString e, analysis = parsed\<rparr>
                            in \<lparr>res = \<lparr>status = 201,
                                       location = Some (''/api/analyze?id='' @ analysisId),
                                       body = Item fullResponse\<rparr>,
                                analyses = map_set s analysisId fullResponse,
                                calls = [t]\<rparr>)))))"

subsection \<open>PUT /api/analyze\<close>

definition put_analyze ::
  "'j env \<Rightarrow> string option \<Rightarrow> string option \<Rightarrow> 'j store \<Rightarrow> 'j outcome" where
  \<open>put_analyze e bid text s =
     (case truthy bid of
        None \<Rightarrow> \<lparr>res = json 400 (Message id_required), analyses = s, calls = []\<rparr>
      | Some i \<Rightarrow>
          if \<not> map_has s i then
            \<lparr>res = json 404 (Message (not_found i)), analyses = s, calls = []\<rparr>
          else
            (case truthy text of
               None \<Rightarrow> \<lparr>res = json 400 (Message text_required), analyses = s, calls = []\<rparr>
             | Some t \<Rightarrow>
                 if trim t = [] then
                   \<lparr>res = json 400 (Message text_required), analyses = s, calls = []\<rparr>
                 else
                   (case truthy (GEMINI_API_KEY e) of
                      None \<Rightarrow> \<lparr>res = json 500 (Message key_missing), analyses = s, calls = []\<rparr>
                    | Some apiKey \<Rightarrow>
                        (case generateContent e t of
                           Inl error \<Rightarrow>
                             \<lparr>res = json 500
                                 (MessageError ''Failed to update analysis.'' (error_message error)),
                              analyses = s, calls = [t]\<rparr>
                         | Inr response_text \<Rightarrow>
                             (case JSON_parse e (ToString response_text) of
                                Inl error \<Rightarrow>
                                  \<lparr>res = json 500
                                      (MessageError ''Failed to update analysis.''
                                         (error_message error)),
                                   analyses = s, calls = [t]\<rparr>
                              | Inr parsed \<Rightarrow>
                                  (let updated =
                                         \<lparr>id' = i, timestamp = toISOString e, analysis = parsed\<rparr>
                                   in \<lparr>res = json 200 (Item updated),
                                       analyses = map_set s i updated,
                                       calls = [t]\<rparr>))))))\<close>

subsection \<open>DELETE /api/analyze\<close>

text \<open>
  The id is \<^verbatim>\<open>(req.query.id as string) || (req.body && req.body.id)\<close>: the query parameter
  when it is truthy, else the body's field when there is a body. The second argument is
  \<^term>\<open>None\<close> for a request without a body, and the body's \<^verbatim>\<open>id\<close> field otherwise.
\<close>

definition delete_analyze ::
  "string option \<Rightarrow> string option option \<Rightarrow> 'j store \<Rightarrow> 'j outcome" where
  \<open>delete_analyze qid rbody s =
     (let id = (case truthy qid of
                  Some i \<Rightarrow> Some i
                | None \<Rightarrow> (case rbody of None \<Rightarrow> None | Some bid \<Rightarrow> bid))
      in case truthy id of
           None \<Rightarrow> \<lparr>res = json 400 (Message id_parameter_required), analyses = s, calls = []\<rparr>
         | Some i \<Rightarrow>
             if \<not> map_has s i then
               \<lparr>res = json 404 (Message (not_found i)), analyses = s, calls = []\<rparr>
             else
               \<lparr>res = \<lparr>status = 204, location = None, body = NoContent\<rparr>,
                analyses = map_delete s i, calls = []\<rparr>)\<close>

subsection \<open>Sequences of requests\<close>

datatype 'j request =
    GET "string option"
  | POST "'j env" "string option"
  | PUT "'j env" "string option" "string option"
  | DELETE "string option" "string option option"

fun handle :: "'j request \<Rightarrow> 'j store \<Rightarrow> 'j outcome" where
  "handle (GET qid) s = get_analyze qid s"
| "handle (POST e text) s = post_analyze e text s"
| "handle (PUT e bid text) s = put_analyze e bid text s"
| "handle (DELETE qid rbody) s = delete_analyze qid rbody s"

text \<open>The store after a sequence of requests, handled one after the other.\<close>

fun run :: "'j request list \<Rightarrow> 'j store \<Rightarrow> 'j store" where
  "run [] s = s"
| "run (r # rs) s = run rs (analyses (handle r s))"

text \<open>
  \<^verbatim>\<open>randomUUID()\<close> returns a 36-character string, never the empty one; \<open>uuid_given\<close>
  says so of the value a creation request draws.
\<close>

fun uuid_given :: "'j request \<Rightarrow> bool" where
  "uuid_given (POST e text) = (randomUUID e \<noteq> [])"
| "uuid_given rq = True"

text \<open>The value of \<^verbatim>\<open>randomUUID()\<close> that a request draws, if it is a creation.\<close>

fun drawn :: "'j request \<Rightarrow> string list" where
  "drawn (POST e text) = [randomUUID e]"
| "drawn rq = []"

subsection \<open>Example requests\<close>

text \<open>
  A provider that answers one small JSON object, and a parser that knows two texts and
  throws on every other; the parsed value is the object's list of string fields.
\<close>

definition example_reply :: string where
  \<open>example_reply = ''{"ozet":"a"}''\<close>

definition example_parse :: "string \<Rightarrow> thrown + (string \<times> string) list" where
  "example_parse x =
     (if x = ''{}'' then Inr []
      else if x = example_reply then Inr [(''ozet'', ''a'')]
      else Inl (Error ''Unexpected token''))"

definition example_env :: "(string \<times> string) list env" where
  \<open>example_env =
     \<lparr>GEMINI_API_KEY = Some ''key'',
      generateContent = (\<lambda>t. Inr (Some example_reply)),
      JSON_parse = example_parse,
      randomUUID = ''u1'',
      toISOString = ''2025-01-01T00:00:00.000Z''\<rparr>\<close>

text \<open>The same with no credential, with a provider that throws, and with a reply that is not JSON.\<close>

definition no_key_env :: "(string \<times> string) list env" where
  "no_key_env = example_env\<lparr>GEMINI_API_KEY := None\<rparr>"

definition failing_env :: "(string \<times> string) list env" where
  "failing_env = example_env\<lparr>generateContent := (\<lambda>t. Inl (Error ''fetch failed''))\<rparr>"

definition garbled_env :: "(string \<times> string) list env" where
  "garbled_env = example_env\<lparr>generateContent := (\<lambda>t. Inr (Some ''oops''))\<rparr>"

text \<open>A later request: another id, another instant, another reply.\<close>

definition later_env :: "(string \<times> string) list env" where
  "later_env =
     example_env\<lparr>generateContent := (\<lambda>t. Inr (Some ''{}'')), randomUUID := ''u2'',
       toISOString := ''2025-01-02T00:00:00.000Z''\<rparr>"

definition example_record :: "(string \<times> string) list analysis_record" where
  "example_record =
     \<lparr>id' = ''u1'', timestamp = ''2025-01-01T00:00:00.000Z'', analysis = [(''ozet'', ''a'')]\<rparr>"

definition later_record :: "(string \<times> string) list analysis_record" where
  "later_record = \<lparr>id' = ''u2'', timestamp = ''2025-01-02T00:00:00.000Z'', analysis = []\<rparr>"

text \<open>A third creation, with an id that the first two did not draw.\<close>

definition third_env :: "(string \<times> string) list env" where
  "third_env = example_env\<lparr>randomUUID := ''u3'', toISOString := ''2025-01-03T00:00:00.000Z''\<rparr>"

definition third_record :: "(string \<times> string) list analysis_record" where
  "third_record =
     \<lparr>id' = ''u3'', timestamp = ''2025-01-03T00:00:00.000Z'', analysis = [(''ozet'', ''a'')]\<rparr>"

definition updated_record :: "(string \<times> string) list analysis_record" where
  "updated_record = \<lparr>id' = ''u1'', timestamp = ''2025-01-02T00:00:00.000Z'', analysis = []\<rparr>"

text \<open>
  The store after two creations, the two creations that lead to it, and a session of four
  requests.
\<close>

definition example_store :: "(string \<times> string) list store" where
  "example_store = [(''u1'', example_record), (''u2'', later_record)]"

definition creation_session :: "(string \<times> string) list request list" where
  "creation_session = [POST example_env (Some ''Merhaba''), POST later_env (Some ''Selam'')]"

definition example_session :: "(string \<times> string) list request list" where
  "example_session =
     [POST example_env (Some ''Merhaba''),
      POST later_env (Some ''Selam''),
      PUT later_env (Some ''u1'') (Some ''Yeni metin''),
      DELETE (Some ''u2'') None]"

section \<open>Properties\<close>

subsection \<open>The map operations\<close>

lemma map_has_get: "map_has m k \<longleftrightarrow> map_get m k \<noteq> None"
  by (induction m) (auto split: if_splits)

lemma map_has_keys: "map_has m k \<longleftrightarrow> k \<in> set (map_keys m)"
  by (induction m) (auto simp: map_keys_def split: if_splits)

lemma map_get_set: "map_get (map_set m k v) k' = (if k' = k then Some v else map_get m k')"
  by (induction m) (auto split: if_splits)

lemma map_keys_set:
  "map_keys (map_set m k v) = (if map_has m k then map_keys m else map_keys m @ [k])"
  by (induction m) (auto simp: map_keys_def split: if_splits)

lemma map_set_fresh: "\<not> map_has m k \<Longrightarrow> map_set m k v = m @ [(k, v)]"
  by (induction m) (auto split: if_splits)

lemma map_delete_filter: "map_delete m k = filter (\<lambda>p. fst p \<noteq> k) m"
  by (induction m) (auto split: if_splits)

lemma map_get_delete: "map_get (map_delete m k) k' = (if k' = k then None else map_get m k')"
  by (induction m) (auto split: if_splits)

lemma set_map_set: "set (map_set m k v) \<subseteq> insert (k, v) (set m)"
  by (induction m) (auto split: if_splits)

lemma set_map_delete: "set (map_delete m k) \<subseteq> set m"
  by (induction m) (auto split: if_splits)

lemma distinct_map_set: "distinct (map_keys m) \<Longrightarrow> distinct (map_keys (map_set m k v))"
  by (simp add: map_keys_set map_has_keys)

lemma distinct_map_delete: "distinct (map_keys m) \<Longrightarrow> distinct (map_keys (map_delete m k))"
  by (simp add: map_delete_filter map_keys_def distinct_map_filter)

subsection \<open>Trimming\<close>

lemma all_dropWhile: "(\<forall>x\<in>set (dropWhile P xs). P x) \<longleftrightarrow> (\<forall>x\<in>set xs. P x)"
  by (induction xs) auto

lemma trim_empty_iff: "trim t = [] \<longleftrightarrow> (\<forall>c\<in>set t. is_white_space c)"
  by (simp add: trim_def all_dropWhile)

lemma trim_nonempty: "trim t \<noteq> [] \<Longrightarrow> t \<noteq> []"
  by (auto simp: trim_def)

lemmas example_simps =
  example_env_def no_key_env_def failing_env_def garbled_env_def later_env_def
  example_parse_def example_reply_def example_record_def later_record_def updated_record_def
  example_store_def example_session_def creation_session_def third_env_def third_record_def
  trim_def is_white_space_def json_def not_found_def text_required_def key_missing_def id_required_def
  id_parameter_required_def Let_def

subsection \<open>Sequences of requests\<close>

lemma handle_keeps_ids:
  assumes "\<forall>p\<in>set s. id' (snd p) = fst p"
  shows "\<forall>p\<in>set (analyses (handle rq s)). id' (snd p) = fst p"
proof (cases rq)
  case (GET qid)
  with assms show ?thesis
    by (simp add: get_analyze_def split: option.splits)
next
  case (POST e tx)
  have "\<forall>p\<in>set (map_set s k \<lparr>id' = k, timestamp = ts, analysis = a\<rparr>). id' (snd p) = fst p"
    for k ts and a :: 'a
    using assms set_map_set [of s k "\<lparr>id' = k, timestamp = ts, analysis = a\<rparr>"] by auto
  with POST assms show ?thesis
    by (simp add: post_analyze_def Let_def split: option.splits sum.splits)
next
  case (PUT e bid tx)
  have "\<forall>p\<in>set (map_set s k \<lparr>id' = k, timestamp = ts, analysis = a\<rparr>). id' (snd p) = fst p"
    for k ts and a :: 'a
    using assms set_map_set [of s k "\<lparr>id' = k, timestamp = ts, analysis = a\<rparr>"] by auto
  with PUT assms show ?thesis
    by (simp add: put_analyze_def Let_def split: option.splits sum.splits)
next
  case (DELETE qid rbody)
  have "\<forall>p\<in>set (map_delete s k). id' (snd p) = fst p" for k
    using assms set_map_delete [of s k] by auto
  with DELETE assms show ?thesis
    by (simp add: delete_analyze_def Let_def split: option.splits)
qed

lemma run_keeps_ids:
  "\<forall>p\<in>set s. id' (snd p) = fst p \<Longrightarrow> \<forall>p\<in>set (run rs s). id' (snd p) = fst p"
proof (induction rs arbitrary: s)
  case Nil
  then show ?case by simp
next
  case (Cons rq rs)
  from Cons.prems have "\<forall>p\<in>set (analyses (handle rq s)). id' (snd p) = fst p"
    by (rule handle_keeps_ids)
  then show ?case by (simp add: Cons.IH)
qed

lemma handle_keeps_distinct:
  "distinct (map_keys s) \<Longrightarrow> distinct (map_keys (analyses (handle rq s)))"
  by (cases rq)
    (simp_all add: get_analyze_def post_analyze_def put_analyze_def delete_analyze_def Let_def
      distinct_map_set distinct_map_delete split: option.splits sum.splits)

lemma run_keeps_distinct: "distinct (map_keys s) \<Longrightarrow> distinct (map_keys (run rs s))"
  by (induction rs arbitrary: s) (simp_all add: handle_keeps_distinct)

text \<open>
  No key of the store is the empty string, as long as \<^verbatim>\<open>randomUUID\<close> never returns it:
  creation is the only writer of new keys, an update writes under a key already there.
\<close>

lemma handle_keys_nonempty:
  assumes "uuid_given rq" and "[] \<notin> set (map_keys s)"
  shows "[] \<notin> set (map_keys (analyses (handle rq s)))"
proof (cases rq)
  case (GET qid)
  with assms show ?thesis
    by (simp add: get_analyze_def split: option.splits)
next
  case (POST e tx)
  with assms show ?thesis
    by (simp add: post_analyze_def Let_def map_keys_set split: option.splits sum.splits)
next
  case (PUT e bid tx)
  with assms show ?thesis
    by (simp add: put_analyze_def Let_def map_keys_set split: option.splits sum.splits)
next
  case (DELETE qid rbody)
  have "[] \<notin> set (map_keys (map_delete s k))" for k
    using assms(2) set_map_delete [of s k] by (auto simp: map_keys_def)
  with DELETE assms show ?thesis
    by (simp add: delete_analyze_def Let_def split: option.splits)
qed

lemma run_keys_nonempty:
  "\<forall>rq\<in>set rs. uuid_given rq \<Longrightarrow> [] \<notin> set (map_keys s) \<Longrightarrow> [] \<notin> set (map_keys (run rs s))"
  by (induction rs arbitrary: s) (simp_all add: handle_keys_nonempty)

text \<open>
  Every key of the store was drawn by a creation, so a value of \<^verbatim>\<open>randomUUID()\<close> that no
  earlier request drew is not a key of the store.
\<close>

lemma handle_keys_drawn:
  "set (map_keys (analyses (handle rq s))) \<subseteq> set (map_keys s) \<union> set (drawn rq)"
proof (cases rq)
  case (GET qid)
  then show ?thesis
    by (simp add: get_analyze_def split: option.splits)
next
  case (POST e tx)
  then show ?thesis
    by (auto simp: post_analyze_def Let_def map_keys_set split: option.splits sum.splits if_splits)
next
  case (PUT e bid tx)
  then show ?thesis
    by (auto simp: put_analyze_def Let_def map_keys_set split: option.splits sum.splits if_splits)
next
  case (DELETE qid rbody)
  have "set (map_keys (map_delete s k)) \<subseteq> set (map_keys s)" for k
    using set_map_delete [of s k] by (auto simp: map_keys_def)
  with DELETE show ?thesis
    by (auto simp: delete_analyze_def Let_def split: option.splits if_splits)
qed

lemma run_keys_drawn:
  "set (map_keys (run rs s)) \<subseteq> set (map_keys s) \<union> set (concat (map drawn rs))"
proof (induction rs arbitrary: s)
  case Nil
  then show ?case by simp
next
  case (Cons rq rs)
  have "set (map_keys (run (rq # rs) s)) \<subseteq>
      set (map_keys (analyses (handle rq s))) \<union> set (concat (map drawn rs))"
    using Cons.IH [of "analyses (handle rq s)"] by simp
  also have "\<dots> \<subseteq> (set (map_keys s) \<union> set (drawn rq)) \<union> set (concat (map drawn rs))"
    using handle_keys_drawn [of rq s] by blast
  finally show ?case by auto
qed

lemma fresh_uuid_not_stored:
  assumes "u \<notin> set (concat (map drawn rs))"
  shows "\<not> map_has (run rs []) u"
proof
  assume "map_has (run rs []) u"
  then have "u \<in> set (map_keys (run rs []))" by (simp add: map_has_keys)
  with run_keys_drawn [of rs "[]"] have "u \<in> set (concat (map drawn rs))"
    by (auto simp: map_keys_def)
  with assms show False by simp
qed

text \<open>
  Hence an entry of a store that was reached from the empty one has a non-empty key, which
  is the \<^verbatim>\<open>id\<close> of its record.
\<close>

lemma map_get_in_set: "map_get m k = Some v \<Longrightarrow> (k, v) \<in> set m"
  by (induction m) (auto split: if_splits)

lemma stored_entry:
  assumes "\<forall>rq\<in>set rs. uuid_given rq" and "map_get (run rs []) i = Some old"
  shows "i \<noteq> []" and "id' old = i"
proof -
  from assms(2) have mem: "(i, old) \<in> set (run rs [])" by (rule map_get_in_set)
  have "\<forall>p\<in>set (run rs ([] :: 'a store)). id' (snd p) = fst p"
    by (rule run_keeps_ids) simp
  with mem show "id' old = i" by fastforce
  from assms(1) have "[] \<notin> set (map_keys (run rs ([] :: 'a store)))"
    by (rule run_keys_nonempty) (simp add: map_keys_def)
  moreover from mem have "i \<in> set (map_keys (run rs []))"
    by (force simp: map_keys_def)
  ultimately show "i \<noteq> []" by auto
qed

subsection \<open>The empty id\<close>

text \<open>
  An id that is the empty string is falsy, so every handler treats it as no id: reading
  lists the store, updating and deleting answer 400 before the store is consulted.
\<close>

lemma empty_id_is_no_id:
  "get_analyze (Some []) s = get_analyze None s"
  "put_analyze e (Some []) tx s = put_analyze e None tx s"
  "delete_analyze (Some []) rbody s = delete_analyze None rbody s"
  by (simp_all add: get_analyze_def put_analyze_def delete_analyze_def)

section \<open>The claims\<close>

subsection \<open>Creation\<close>

text \<open>
  Claim C1, as the handler has it. Let the store \<open>s\<close> be reached from the empty store by
  any requests, and let \<^verbatim>\<open>randomUUID()\<close> return a value that it returned to none of them.
  For every non-empty text (not blank after trimming), \<^verbatim>\<open>POST /api/analyze\<close>
  \<^item> either stores the record \<^verbatim>\<open>{ id, timestamp, analysis }\<close> under the generated id, which
    was not in the store before, as a new last entry, and answers 201 with the record and
    a \<^verbatim>\<open>Location\<close> header \<^verbatim>\<open>/api/analyze?id=<id>\<close>;
  \<^item> or fails with status 500 (the credential is missing, with no provider call, or the
    provider call throws) and leaves the store unchanged;
  \<^item> or, when the provider's reply does not parse as JSON, answers 200 with the reply's
    text as the body (the handler's fallback) and leaves the store unchanged.
\<close>

theorem create_outcomes:
  assumes "s = run rs []" and "randomUUID e \<notin> set (concat (map drawn rs))"
    and "trim t \<noteq> []"
  shows "(truthy (GEMINI_API_KEY e) = None \<longrightarrow>
            post_analyze e (Some t) s =
              \<lparr>res = json 500 (Message key_missing), analyses = s, calls = []\<rparr>)
       \<and> (truthy (GEMINI_API_KEY e) \<noteq> None \<and> generateContent e t = Inl err \<longrightarrow>
            post_analyze e (Some t) s =
              \<lparr>res = json 500 (MessageError ''Failed to analyze text.'' (error_message err)),
               analyses = s, calls = [t]\<rparr>)
       \<and> (truthy (GEMINI_API_KEY e) \<noteq> None \<and> generateContent e t = Inr r \<and>
            JSON_parse e (ToString r) = Inl ex \<longrightarrow>
            post_analyze e (Some t) s = \<lparr>res = json 200 (Raw r), analyses = s, calls = [t]\<rparr>)
       \<and> (truthy (GEMINI_API_KEY e) \<noteq> None \<and> generateContent e t = Inr r \<and>
            JSON_parse e (ToString r) = Inr parsed \<longrightarrow>
            map_get s (randomUUID e) = None
            \<and> res (post_analyze e (Some t) s) =
              \<lparr>status = 201, location = Some (''/api/analyze?id='' @ randomUUID e),
               body = Item \<lparr>id' = randomUUID e, timestamp = toISOString e, analysis = parsed\<rparr>\<rparr>
            \<and> analyses (post_analyze e (Some t) s) =
                s @ [(randomUUID e,
                      \<lparr>id' = randomUUID e, timestamp = toISOString e, analysis = parsed\<rparr>)]
            \<and> map_get (analyses (post_analyze e (Some t) s)) (randomUUID e) =
                Some \<lparr>id' = randomUUID e, timestamp = toISOString e, analysis = parsed\<rparr>
            \<and> calls (post_analyze e (Some t) s) = [t])"
proof -
  from assms(3) have t: "t \<noteq> []" by (rule trim_nonempty)
  from assms(1,2) have fresh: "\<not> map_has s (randomUUID e)"
    by (simp add: fresh_uuid_not_stored)
  then have absent: "map_get s (randomUUID e) = None"
    by (simp add: map_has_get)
  have stored: "map_get (map_set s (randomUUID e) v) (randomUUID e) = Some v" for v
    by (simp add: map_get_set)
  have appended: "map_set s (randomUUID e) v = s @ [(randomUUID e, v)]" for v
    using fresh by (rule map_set_fresh)
  show ?thesis
    using assms(3) t absent stored
    by (auto simp: post_analyze_def Let_def appended [symmetric])
qed

text \<open>
  The failures and the fallback on the empty store, and a creation on the store of two
  records.
\<close>

theorem create_outcomes_witness:
  "[] = run [] ([] :: (string \<times> string) list store)
   \<and> trim ''Merhaba'' \<noteq> []
   \<and> post_analyze no_key_env (Some ''Merhaba'') [] =
       \<lparr>res = json 500 (Message key_missing), analyses = [], calls = []\<rparr>
   \<and> post_analyze failing_env (Some ''Merhaba'') [] =
       \<lparr>res = json 500 (MessageError ''Failed to analyze text.'' ''fetch failed''),
        analyses = [], calls = [''Merhaba'']\<rparr>
   \<and> post_analyze garbled_env (Some ''Merhaba'') [] =
       \<lparr>res = json 200 (Raw (Some ''oops'')), analyses = [], calls = [''Merhaba'']\<rparr>
   \<and> example_store = run creation_session []
   \<and> randomUUID third_env \<notin> set (concat (map drawn creation_session))
   \<and> map_get example_store ''u3'' = None
   \<and> res (post_analyze third_env (Some ''Merhaba'') example_store) =
       \<lparr>status = 201, location = Some ''/api/analyze?id=u3'', body = Item third_record\<rparr>
   \<and> analyses (post_analyze third_env (Some ''Merhaba'') example_store) =
       [(''u1'', example_record), (''u2'', later_record), (''u3'', third_record)]
   \<and> map_get (analyses (post_analyze third_env (Some ''Merhaba'') example_store)) ''u3'' =
       Some third_record"
  using
    create_outcomes [where rs = "[]" and t = "''Merhaba''" and e = no_key_env and s = "[]"]
    create_outcomes [where rs = "[]" and t = "''Merhaba''" and e = failing_env and s = "[]"
      and err = "Error ''fetch failed''"]
    create_outcomes [where rs = "[]" and t = "''Merhaba''" and e = garbled_env and s = "[]"
      and r = "Some ''oops''" and ex = "Error ''Unexpected token''"]
    create_outcomes [where rs = creation_session and t = "''Merhaba''" and e = third_env
      and s = example_store and r = "Some example_reply" and parsed = "[(''ozet'', ''a'')]"]
  by (simp add: example_simps post_analyze_def)

text \<open>
  C1 as it was stated (either 201 with the record inserted, or 500 with the store unchanged)
  fails when the reply is not JSON: the response is neither, its status is 200.
\<close>

theorem create_neither_201_nor_500_counterexample:
  "\<not> ((status (res (post_analyze garbled_env (Some ''Merhaba'') [])) = 201
         \<and> location (res (post_analyze garbled_env (Some ''Merhaba'') [])) =
             Some ''/api/analyze?id=u1''
         \<and> map_has (analyses (post_analyze garbled_env (Some ''Merhaba'') [])) ''u1'')
        \<or> (status (res (post_analyze garbled_env (Some ''Merhaba'') [])) = 500
            \<and> analyses (post_analyze garbled_env (Some ''Merhaba'') []) = []))
   \<and> status (res (post_analyze garbled_env (Some ''Merhaba'') [])) = 200"
  by (simp add: post_analyze_def example_simps)

text \<open>
  Claim C2, as the handler has it. When the credential is configured, the text is not
  empty after trimming and the provider's reply does not parse as JSON, creation answers
  with status 200, no \<^verbatim>\<open>Location\<close> header and the reply's text itself as the body; no
  record is inserted, and the provider was called once.
\<close>

theorem create_unparseable_reply:
  assumes "truthy (GEMINI_API_KEY e) \<noteq> None" and "trim t \<noteq> []"
    and "generateContent e t = Inr r" and "JSON_parse e (ToString r) = Inl ex"
  shows "post_analyze e (Some t) s =
           \<lparr>res = \<lparr>status = 200, location = None, body = Raw r\<rparr>, analyses = s, calls = [t]\<rparr>"
proof -
  from assms(2) have "t \<noteq> []" by (rule trim_nonempty)
  with assms show ?thesis
    by (auto simp: post_analyze_def json_def Let_def)
qed

theorem create_unparseable_reply_witness:
  "post_analyze garbled_env (Some ''Selam'') [(''u1'', example_record)] =
     \<lparr>res = \<lparr>status = 200, location = None, body = Raw (Some ''oops'')\<rparr>,
      analyses = [(''u1'', example_record)], calls = [''Selam'']\<rparr>"
proof -
  have "truthy (GEMINI_API_KEY garbled_env) \<noteq> None"
    and "trim ''Selam'' \<noteq> []"
    and "generateContent garbled_env ''Selam'' = Inr (Some ''oops'')"
    and "JSON_parse garbled_env (ToString (Some ''oops'')) = Inl (Error ''Unexpected token'')"
    by (simp_all add: example_simps)
  then show ?thesis by (rule create_unparseable_reply)
qed

text \<open>
  C2 as it was stated (a 500 with a structured error body, never the provider's payload)
  fails at the reply \<^verbatim>\<open>oops\<close>: the caller receives it, with status 200.
\<close>

theorem create_raw_reply_counterexample:
  "status (res (post_analyze garbled_env (Some ''Selam'') [])) = 200
   \<and> body (res (post_analyze garbled_env (Some ''Selam'') [])) = Raw (Some ''oops'')
   \<and> \<not> (status (res (post_analyze garbled_env (Some ''Selam'') [])) = 500)"
  by (simp add: post_analyze_def example_simps)

subsection \<open>Blank text\<close>

text \<open>
  Claim C3, as the handlers have it. For every text that is empty or consists of white
  space only, neither creation nor update calls the provider, and the store is unchanged.
  Creation answers 400 when the credential is configured; its credential check comes
  first and answers 500 when the credential is missing. Update answers 400 when the id is
  missing and 400 when the id is in the store, whatever the credential; an id that is not
  in the store is answered 404 before the text is looked at.
\<close>

theorem blank_text_rejected:
  assumes "\<forall>c\<in>set t. is_white_space c"
  shows "calls (post_analyze e (Some t) s) = [] \<and> analyses (post_analyze e (Some t) s) = s
       \<and> (truthy (GEMINI_API_KEY e) \<noteq> None \<longrightarrow>
            res (post_analyze e (Some t) s) = json 400 (Message text_required))
       \<and> (truthy (GEMINI_API_KEY e) = None \<longrightarrow>
            res (post_analyze e (Some t) s) = json 500 (Message key_missing))
       \<and> calls (put_analyze e bid (Some t) s) = [] \<and> analyses (put_analyze e bid (Some t) s) = s
       \<and> (truthy bid = None \<longrightarrow>
            res (put_analyze e bid (Some t) s) = json 400 (Message id_required))
       \<and> (truthy bid = Some i \<and> map_has s i \<longrightarrow>
            res (put_analyze e bid (Some t) s) = json 400 (Message text_required))
       \<and> (truthy bid = Some i \<and> \<not> map_has s i \<longrightarrow>
            res (put_analyze e bid (Some t) s) = json 404 (Message (not_found i)))"
proof -
  from assms have blank: "trim t = []" by (simp add: trim_empty_iff)
  have post: "post_analyze e (Some t) s =
      (case truthy (GEMINI_API_KEY e) of
         None \<Rightarrow> \<lparr>res = json 500 (Message key_missing), analyses = s, calls = []\<rparr>
       | Some k \<Rightarrow> \<lparr>res = json 400 (Message text_required), analyses = s, calls = []\<rparr>)"
    using blank by (simp add: post_analyze_def split: option.splits)
  have put: "put_analyze e bid (Some t) s =
      (case truthy bid of
         None \<Rightarrow> \<lparr>res = json 400 (Message id_required), analyses = s, calls = []\<rparr>
       | Some i \<Rightarrow>
           if map_has s i then \<lparr>res = json 400 (Message text_required), analyses = s, calls = []\<rparr>
           else \<lparr>res = json 404 (Message (not_found i)), analyses = s, calls = []\<rparr>)"
    using blank by (simp add: put_analyze_def split: option.splits)
  show ?thesis
    unfolding post put by (auto split: option.splits)
qed

theorem blank_text_rejected_witness:
  "list_all is_white_space ''  ''
   \<and> post_analyze example_env (Some ''  '') [] =
       \<lparr>res = json 400 (Message text_required), analyses = [], calls = []\<rparr>
   \<and> post_analyze no_key_env (Some ''  '') [] =
       \<lparr>res = json 500 (Message key_missing), analyses = [], calls = []\<rparr>
   \<and> put_analyze no_key_env None (Some ''  '') example_store =
       \<lparr>res = json 400 (Message id_required), analyses = example_store, calls = []\<rparr>
   \<and> put_analyze no_key_env (Some ''u1'') (Some ''  '') example_store =
       \<lparr>res = json 400 (Message text_required), analyses = example_store, calls = []\<rparr>
   \<and> put_analyze example_env (Some ''u3'') (Some ''  '') example_store =
       \<lparr>res = json 404 (Message (not_found ''u3'')), analyses = example_store, calls = []\<rparr>"
  using
    blank_text_rejected [where t = "''  ''" and e = example_env and s = "[]"]
    blank_text_rejected [where t = "''  ''" and e = no_key_env and s = "[]"]
    blank_text_rejected [where t = "''  ''" and e = no_key_env and s = example_store
      and bid = None]
    blank_text_rejected [where t = "''  ''" and e = no_key_env and s = example_store
      and bid = "Some ''u1''" and i = "''u1''"]
    blank_text_rejected [where t = "''  ''" and e = example_env and s = example_store
      and bid = "Some ''u3''" and i = "''u3''"]
  by (simp add: example_simps put_analyze_def post_analyze_def)

text \<open>
  C3 as it was stated (400 whatever the configuration) fails for creation without a
  credential, which is answered 500, and for an update of an id that is not in the store,
  which is answered 404.
\<close>

theorem blank_text_counterexample:
  "status (res (post_analyze no_key_env (Some ''  '') [])) = 500
   \<and> \<not> (status (res (post_analyze no_key_env (Some ''  '') [])) = 400)
   \<and> status (res (put_analyze example_env (Some ''u3'') (Some ''  '') example_store)) = 404
   \<and> \<not> (status (res (put_analyze example_env (Some ''u3'') (Some ''  '') example_store)) = 400)"
  by (simp add: post_analyze_def put_analyze_def example_simps)

subsection \<open>Update\<close>

text \<open>
  Claim C4. Let the store \<open>s\<close> be reached from the empty store by any requests (whose
  creations drew non-empty ids). For every id in the store and every text that is not
  empty after trimming, an update that succeeds (the credential is configured, the
  provider replies and the reply parses) answers 200 with the updated record; the record
  under the id changes in its \<^verbatim>\<open>timestamp\<close> and \<^verbatim>\<open>analysis\<close> fields only and keeps its
  \<^verbatim>\<open>id\<close>; the keys of the store and their order are the same; the record under every
  other key \<open>k\<close> is the same; and reading the id afterwards returns the updated record.
\<close>

theorem update_success:
  assumes "\<forall>rq\<in>set rs. uuid_given rq" and "s = run rs []"
    and "map_get s i = Some old" and "trim t \<noteq> []"
    and "truthy (GEMINI_API_KEY e) \<noteq> None"
    and "generateContent e t = Inr r" and "JSON_parse e (ToString r) = Inr parsed"
  shows "res (put_analyze e (Some i) (Some t) s) =
           json 200 (Item (old\<lparr>timestamp := toISOString e, analysis := parsed\<rparr>))
       \<and> analyses (put_analyze e (Some i) (Some t) s) =
           map_set s i (old\<lparr>timestamp := toISOString e, analysis := parsed\<rparr>)
       \<and> id' (old\<lparr>timestamp := toISOString e, analysis := parsed\<rparr>) = id' old
       \<and> map_keys (analyses (put_analyze e (Some i) (Some t) s)) = map_keys s
       \<and> (k \<noteq> i \<longrightarrow>
             map_get (analyses (put_analyze e (Some i) (Some t) s)) k = map_get s k)
       \<and> res (get_analyze (Some i) (analyses (put_analyze e (Some i) (Some t) s))) =
           json 200 (Item (old\<lparr>timestamp := toISOString e, analysis := parsed\<rparr>))"
proof -
  let ?new = "old\<lparr>timestamp := toISOString e, analysis := parsed\<rparr>"
  from assms(1-3) have i: "i \<noteq> []" and old: "id' old = i"
    by (auto dest: stored_entry)
  from assms(4) have t: "t \<noteq> []" by (rule trim_nonempty)
  from assms(3) have has: "map_has s i" by (simp add: map_has_get)
  from old have new: "\<lparr>id' = i, timestamp = toISOString e, analysis = parsed\<rparr> = ?new"
    by simp
  have out: "put_analyze e (Some i) (Some t) s =
      \<lparr>res = json 200 (Item ?new), analyses = map_set s i ?new, calls = [t]\<rparr>"
    using assms(4-7) i t has by (auto simp: put_analyze_def Let_def new)
  show ?thesis
    unfolding out using i has
    by (simp add: map_keys_set map_get_set get_analyze_def)
qed

theorem update_success_witness:
  "(list_all uuid_given creation_session)
   \<and> example_store = run creation_session []
   \<and> map_get example_store ''u1'' = Some example_record
   \<and> res (put_analyze later_env (Some ''u1'') (Some ''Yeni metin'') example_store) =
       json 200 (Item updated_record)
   \<and> analyses (put_analyze later_env (Some ''u1'') (Some ''Yeni metin'') example_store) =
       [(''u1'', updated_record), (''u2'', later_record)]
   \<and> map_get (analyses (put_analyze later_env (Some ''u1'') (Some ''Yeni metin'') example_store))
         ''u2'' = Some later_record
   \<and> res (get_analyze (Some ''u1'')
         (analyses (put_analyze later_env (Some ''u1'') (Some ''Yeni metin'') example_store))) =
       json 200 (Item updated_record)"
  using update_success [where rs = creation_session and i = "''u1''" and s = example_store
      and old = example_record and t = "''Yeni metin''" and e = later_env and r = "Some ''{}''"
      and parsed = "[]" and k = "''u2''"]
  by (simp add: example_simps post_analyze_def get_analyze_def)

text \<open>
  Claim C5. Let the store \<open>s\<close> be reached from the empty store by any requests (whose
  creations drew non-empty ids). For every id in the store, when the requester fails
  during an update (the credential is missing, the provider call throws, or the reply does
  not parse as JSON), the response has status 500 with a \<^verbatim>\<open>{ message }\<close> or
  \<^verbatim>\<open>{ message, error }\<close> body, the store is the same as before, and reading the id
  afterwards returns the record that was there.
\<close>

theorem update_failure:
  assumes "\<forall>rq\<in>set rs. uuid_given rq" and "s = run rs []"
    and "map_get s i = Some old" and "trim t \<noteq> []"
    and "truthy (GEMINI_API_KEY e) = None \<or> generateContent e t = Inl err \<or>
         (generateContent e t = Inr r \<and> JSON_parse e (ToString r) = Inl err)"
  shows "status (res (put_analyze e (Some i) (Some t) s)) = 500
       \<and> (truthy (GEMINI_API_KEY e) = None \<longrightarrow>
            body (res (put_analyze e (Some i) (Some t) s)) = Message key_missing)
       \<and> (truthy (GEMINI_API_KEY e) \<noteq> None \<longrightarrow>
            body (res (put_analyze e (Some i) (Some t) s)) =
              MessageError ''Failed to update analysis.'' (error_message err))
       \<and> analyses (put_analyze e (Some i) (Some t) s) = s
       \<and> calls (put_analyze e (Some i) (Some t) s) =
           (if truthy (GEMINI_API_KEY e) = None then [] else [t])
       \<and> res (get_analyze (Some i) (analyses (put_analyze e (Some i) (Some t) s))) =
           json 200 (Item old)"
proof -
  from assms(1-3) have i: "i \<noteq> []"
    by (auto dest: stored_entry)
  from assms(4) have t: "t \<noteq> []" by (rule trim_nonempty)
  from assms(3) have has: "map_has s i" by (simp add: map_has_get)
  have same: "analyses (put_analyze e (Some i) (Some t) s) = s"
    using assms(4,5) i t has
    by (auto simp: put_analyze_def Let_def split: option.splits sum.splits)
  have read: "res (get_analyze (Some i) s) = json 200 (Item old)"
    using i assms(3) by (simp add: get_analyze_def)
  have resp: "status (res (put_analyze e (Some i) (Some t) s)) = 500
       \<and> (truthy (GEMINI_API_KEY e) = None \<longrightarrow>
            body (res (put_analyze e (Some i) (Some t) s)) = Message key_missing)
       \<and> (truthy (GEMINI_API_KEY e) \<noteq> None \<longrightarrow>
            body (res (put_analyze e (Some i) (Some t) s)) =
              MessageError ''Failed to update analysis.'' (error_message err))
       \<and> calls (put_analyze e (Some i) (Some t) s) =
           (if truthy (GEMINI_API_KEY e) = None then [] else [t])"
    using assms(4,5) i t has
    by (auto simp: put_analyze_def json_def Let_def split: option.splits)
  from resp same read show ?thesis by simp
qed

theorem update_failure_witness:
  "list_all uuid_given creation_session
   \<and> example_store = run creation_session []
   \<and> map_get example_store ''u1'' = Some example_record
   \<and> res (put_analyze no_key_env (Some ''u1'') (Some ''Yeni metin'') example_store) =
       json 500 (Message key_missing)
   \<and> analyses (put_analyze no_key_env (Some ''u1'') (Some ''Yeni metin'') example_store) =
       example_store
   \<and> res (put_analyze failing_env (Some ''u1'') (Some ''Yeni metin'') example_store) =
       json 500 (MessageError ''Failed to update analysis.'' ''fetch failed'')
   \<and> analyses (put_analyze failing_env (Some ''u1'') (Some ''Yeni metin'') example_store) =
       example_store
   \<and> res (put_analyze garbled_env (Some ''u1'') (Some ''Yeni metin'') example_store) =
       json 500 (MessageError ''Failed to update analysis.'' ''Unexpected token'')
   \<and> analyses (put_analyze garbled_env (Some ''u1'') (Some ''Yeni metin'') example_store) =
       example_store
   \<and> res (get_analyze (Some ''u1'')
         (analyses (put_analyze garbled_env (Some ''u1'') (Some ''Yeni metin'') example_store))) =
       json 200 (Item example_record)"
  using
    update_failure [where rs = creation_session and i = "''u1''" and s = example_store
      and old = example_record and t = "''Yeni metin''" and e = no_key_env]
    update_failure [where rs = creation_session and i = "''u1''" and s = example_store
      and old = example_record and t = "''Yeni metin''" and e = failing_env
      and err = "Error ''fetch failed''"]
    update_failure [where rs = creation_session and i = "''u1''" and s = example_store
      and old = example_record and t = "''Yeni metin''" and e = garbled_env
      and err = "Error ''Unexpected token''" and r = "Some ''oops''"]
  by (simp add: example_simps post_analyze_def put_analyze_def)


text \<open>
  Claim C10, as the handler has it. In the update handler the membership check on the id
  comes before the validation of the text and before the credential check: for every
  non-empty id that is not in the store, the answer is 404 with the store unchanged and
  no provider call, whatever the text (missing, empty, blank or not) and whatever the
  credential. An empty id is answered 400 by the check that precedes the membership
  check.
\<close>

theorem update_unknown_id:
  "(i \<noteq> [] \<and> \<not> map_has s i \<longrightarrow>
      put_analyze e (Some i) tx s =
        \<lparr>res = json 404 (Message (not_found i)), analyses = s, calls = []\<rparr>)
   \<and> put_analyze e (Some []) tx s =
        \<lparr>res = json 400 (Message id_required), analyses = s, calls = []\<rparr>"
  by (simp add: put_analyze_def)

theorem update_unknown_id_witness:
  "\<not> map_has example_store ''u3''
   \<and> put_analyze no_key_env (Some ''u3'') (Some ''  '') example_store =
       \<lparr>res = json 404 (Message (not_found ''u3'')), analyses = example_store, calls = []\<rparr>
   \<and> put_analyze example_env (Some ''u3'') None example_store =
       \<lparr>res = json 404 (Message (not_found ''u3'')), analyses = example_store, calls = []\<rparr>"
  using
    update_unknown_id [where i = "''u3''" and s = example_store and e = no_key_env
      and tx = "Some ''  ''"]
    update_unknown_id [where i = "''u3''" and s = example_store and e = example_env
      and tx = None]
  by (simp add: example_simps)

text \<open>
  C10 as it was stated (404 for every id that is not in the store) fails at the empty id:
  it is not in the store, and the answer is 400.
\<close>

theorem update_empty_id_counterexample:
  "\<not> map_has example_store ''''
   \<and> status (res (put_analyze example_env (Some '''') (Some ''Yeni metin'') example_store)) = 400
   \<and> \<not> (status (res (put_analyze example_env (Some '''') (Some ''Yeni metin'') example_store))
          = 404)"
  by (simp add: put_analyze_def example_simps)

subsection \<open>Reading\<close>

text \<open>
  Claim C6, as the handler has it. For every non-empty id, reading the id returns the
  stored record (status 200) when the id is in the store, and status 404 with the message
  \<^verbatim>\<open>Analysis with id <id> not found.\<close> when it is not; after a creation that answered 201
  with a record whose id is not empty, reading that id returns the same record, hence the
  same analysis. Reading with the empty id is reading with no id: the list is returned.
\<close>

theorem read_by_id:
  "(i \<noteq> [] \<and> map_get s i = Some item \<longrightarrow>
      get_analyze (Some i) s = \<lparr>res = json 200 (Item item), analyses = s, calls = []\<rparr>)
   \<and> (i \<noteq> [] \<and> map_get s i = None \<longrightarrow>
      get_analyze (Some i) s =
        \<lparr>res = json 404 (Message (''Analysis with id '' @ i @ '' not found.'')),
         analyses = s, calls = []\<rparr>)
   \<and> (status (res (post_analyze e tx s)) = 201 \<and> body (res (post_analyze e tx s)) = Item c
        \<and> id' c \<noteq> [] \<longrightarrow>
      res (get_analyze (Some (id' c)) (analyses (post_analyze e tx s))) = json 200 (Item c))
   \<and> get_analyze (Some []) s = get_analyze None s"
proof -
  have created: "res (get_analyze (Some (id' c)) (analyses (post_analyze e tx s))) =
      json 200 (Item c)"
    if "status (res (post_analyze e tx s)) = 201" and "body (res (post_analyze e tx s)) = Item c"
      and "id' c \<noteq> []"
    using that
    by (auto simp: post_analyze_def get_analyze_def json_def Let_def map_get_set
        split: option.splits if_splits sum.splits)
  show ?thesis
    using created by (simp add: get_analyze_def not_found_def)
qed

theorem read_by_id_witness:
  "get_analyze (Some ''u2'') example_store =
     \<lparr>res = json 200 (Item later_record), analyses = example_store, calls = []\<rparr>
   \<and> get_analyze (Some ''doesnotexist'') example_store =
     \<lparr>res = json 404 (Message ''Analysis with id doesnotexist not found.''),
      analyses = example_store, calls = []\<rparr>
   \<and> status (res (post_analyze example_env (Some ''Merhaba'') [])) = 201
   \<and> body (res (post_analyze example_env (Some ''Merhaba'') [])) = Item example_record
   \<and> res (get_analyze (Some ''u1'') (analyses (post_analyze example_env (Some ''Merhaba'') []))) =
       json 200 (Item example_record)"
  using
    read_by_id [where i = "''u2''" and s = example_store and item = later_record]
    read_by_id [where i = "''doesnotexist''" and s = example_store]
    read_by_id [where e = example_env and tx = "Some ''Merhaba''" and s = "[]"
      and c = example_record]
  by (simp add: example_simps post_analyze_def)

text \<open>
  C6 as it was stated (for every id that is not in the store, 404) fails at the empty id:
  it is not in the store, and the answer is 200 with the list.
\<close>

theorem read_empty_id_counterexample:
  "map_get example_store '''' = None
   \<and> res (get_analyze (Some '''') example_store) =
       json 200 (Analyses [(''u1'', ''2025-01-01T00:00:00.000Z''),
                           (''u2'', ''2025-01-02T00:00:00.000Z'')])
   \<and> \<not> (status (res (get_analyze (Some '''') example_store)) = 404)"
  by (simp add: get_analyze_def map_values_def example_simps)

text \<open>
  Claim C8. Reading with no id answers 200 with \<^verbatim>\<open>{ analyses: [...] }\<close>, whose list has
  one entry \<^verbatim>\<open>{ id, timestamp }\<close> for each record of the store, in the order of the store;
  the store is unchanged. In a store reached from the empty one the ids listed are the
  keys of the store, each once. The order is the order of insertion: storing a record
  under a key that is not in the store adds its entry at the end of the list.
\<close>

theorem list_all_analyses:
  "get_analyze None s =
     \<lparr>res = json 200 (Analyses (map (\<lambda>p. (id' (snd p), timestamp (snd p))) s)),
      analyses = s, calls = []\<rparr>
   \<and> (s = run rs [] \<longrightarrow>
        map fst (map (\<lambda>p. (id' (snd p), timestamp (snd p))) s) = map_keys s
        \<and> distinct (map_keys s))
   \<and> (\<not> map_has s u \<longrightarrow>
        map (\<lambda>p. (id' (snd p), timestamp (snd p))) (map_set s u v) =
        map (\<lambda>p. (id' (snd p), timestamp (snd p))) s @ [(id' v, timestamp v)])"
proof -
  have listing: "get_analyze None s =
     \<lparr>res = json 200 (Analyses (map (\<lambda>p. (id' (snd p), timestamp (snd p))) s)),
      analyses = s, calls = []\<rparr>"
    by (simp add: get_analyze_def map_values_def comp_def)
  have keys: "map fst (map (\<lambda>p. (id' (snd p), timestamp (snd p))) s) = map_keys s
      \<and> distinct (map_keys s)" if "s = run rs []"
  proof -
    have "\<forall>p\<in>set (run rs ([] :: 'a store)). id' (snd p) = fst p"
      by (rule run_keeps_ids) simp
    with that have "map fst (map (\<lambda>p. (id' (snd p), timestamp (snd p))) s) = map_keys s"
      by (simp add: map_keys_def)
    moreover have "distinct (map_keys (run rs ([] :: 'a store)))"
      by (rule run_keeps_distinct) (simp add: map_keys_def)
    ultimately show ?thesis using that by simp
  qed
  have last: "map (\<lambda>p. (id' (snd p), timestamp (snd p))) (map_set s u v) =
        map (\<lambda>p. (id' (snd p), timestamp (snd p))) s @ [(id' v, timestamp v)]"
    if "\<not> map_has s u"
    using that by (simp add: map_set_fresh)
  from listing keys last show ?thesis by blast
qed

theorem list_all_analyses_witness:
  "get_analyze None example_store =
     \<lparr>res = json 200 (Analyses [(''u1'', ''2025-01-01T00:00:00.000Z''),
                                 (''u2'', ''2025-01-02T00:00:00.000Z'')]),
      analyses = example_store, calls = []\<rparr>
   \<and> example_store = run creation_session []
   \<and> map_keys example_store = [''u1'', ''u2'']
   \<and> \<not> map_has [(''u1'', example_record)] ''u2''
   \<and> map_set [(''u1'', example_record)] ''u2'' later_record = example_store"
  using
    list_all_analyses [where s = example_store and rs = creation_session]
    list_all_analyses [where s = "[(''u1'', example_record)]" and u = "''u2''"
      and v = later_record]
  by (simp add: example_simps post_analyze_def map_keys_def)

subsection \<open>Deletion\<close>

text \<open>
  Claim C7, as the handler has it. For every store and every non-empty id given in the
  query:
  \<^item> when the id is in the store, deletion answers 204 with no body and removes the entry
    of that id and no other (the record under every key \<open>k\<close> other than the id is the
    same), so that reading the id afterwards answers 404;
  \<^item> when the id is not in the store, deletion answers 404 and the store is unchanged.

  A non-empty id in the body, with no non-empty id in the query, is handled the same.
  When neither the query nor the body carries a non-empty id, the answer is 400 and the
  store is unchanged.
\<close>

theorem delete_by_id:
  "(i \<noteq> [] \<and> map_has s i \<longrightarrow>
      delete_analyze (Some i) rbody s =
        \<lparr>res = \<lparr>status = 204, location = None, body = NoContent\<rparr>,
         analyses = filter (\<lambda>p. fst p \<noteq> i) s, calls = []\<rparr>
      \<and> map_get (analyses (delete_analyze (Some i) rbody s)) k =
            (if k = i then None else map_get s k)
      \<and> res (get_analyze (Some i) (analyses (delete_analyze (Some i) rbody s))) =
          json 404 (Message (not_found i)))
   \<and> (i \<noteq> [] \<and> \<not> map_has s i \<longrightarrow>
      delete_analyze (Some i) rbody s =
        \<lparr>res = json 404 (Message (not_found i)), analyses = s, calls = []\<rparr>)
   \<and> (i \<noteq> [] \<and> truthy qid = None \<longrightarrow>
      delete_analyze qid (Some (Some i)) s = delete_analyze (Some i) rbody s)
   \<and> (truthy qid = None \<and> (rbody = None \<or> (\<exists>bid. rbody = Some bid \<and> truthy bid = None)) \<longrightarrow>
      delete_analyze qid rbody s =
        \<lparr>res = json 400 (Message id_parameter_required), analyses = s, calls = []\<rparr>)"
proof -
  have gone: "map_get (filter (\<lambda>p. fst p \<noteq> i) s) k = (if k = i then None else map_get s k)" for k
    using map_get_delete [of s i k] by (simp add: map_delete_filter)
  show ?thesis
    by (auto simp: delete_analyze_def Let_def map_delete_filter gone get_analyze_def
        split: option.splits)
qed

theorem delete_by_id_witness:
  "delete_analyze (Some ''u1'') None example_store =
     \<lparr>res = \<lparr>status = 204, location = None, body = NoContent\<rparr>,
      analyses = [(''u2'', later_record)], calls = []\<rparr>
   \<and> res (get_analyze (Some ''u1'') (analyses (delete_analyze (Some ''u1'') None example_store))) =
       json 404 (Message (not_found ''u1''))
   \<and> map_get (analyses (delete_analyze (Some ''u1'') None example_store)) ''u2'' =
       Some later_record
   \<and> delete_analyze (Some ''u3'') None example_store =
     \<lparr>res = json 404 (Message (not_found ''u3'')), analyses = example_store, calls = []\<rparr>
   \<and> delete_analyze None (Some (Some ''u1'')) example_store =
       delete_analyze (Some ''u1'') None example_store
   \<and> delete_analyze None None example_store =
     \<lparr>res = json 400 (Message id_parameter_required), analyses = example_store, calls = []\<rparr>
   \<and> delete_analyze None (Some None) example_store =
     \<lparr>res = json 400 (Message id_parameter_required), analyses = example_store, calls = []\<rparr>"
  using
    delete_by_id [where i = "''u1''" and s = example_store and rbody = None and qid = None
      and k = "''u2''"]
    delete_by_id [where i = "''u3''" and s = example_store and rbody = None and qid = None]
    delete_by_id [where i = "''u3''" and s = example_store and rbody = "Some None" and qid = None]
  by (simp add: example_simps get_analyze_def delete_analyze_def)

text \<open>
  C7 as it was stated (404 for an id that is not in the store, 400 only when neither the
  query nor the body has an id) fails at the empty id given in the query: it is not in
  the store, and the answer is 400.
\<close>

theorem delete_empty_id_counterexample:
  "\<not> map_has example_store ''''
   \<and> status (res (delete_analyze (Some '''') None example_store)) = 400
   \<and> \<not> (status (res (delete_analyze (Some '''') None example_store)) = 404)"
  by (simp add: delete_analyze_def example_simps)

subsection \<open>The store invariant\<close>

text \<open>
  Claim C9. Starting from the empty store, after any sequence of requests (creations,
  updates, deletions, and reads), the keys of the store are distinct, and every value
  \<open>v\<close> stored under a key \<open>k\<close> has \<open>k\<close> as its \<^verbatim>\<open>id\<close> field; the value is a record
  of the three fields \<^verbatim>\<open>id\<close>, \<^verbatim>\<open>timestamp\<close> and \<^verbatim>\<open>analysis\<close>.
\<close>

theorem store_invariant:
  "distinct (map_keys (run rs []))
   \<and> ((k, v) \<in> set (run rs []) \<longrightarrow>
         v = \<lparr>id' = k, timestamp = timestamp v, analysis = analysis v\<rparr>)"
proof -
  have "\<forall>p\<in>set (run rs ([] :: 'a store)). id' (snd p) = fst p"
    by (rule run_keeps_ids) simp
  then have "(k, v) \<in> set (run rs []) \<longrightarrow>
      v = \<lparr>id' = k, timestamp = timestamp v, analysis = analysis v\<rparr>"
    by fastforce
  moreover have "distinct (map_keys (run rs ([] :: 'a store)))"
    by (rule run_keeps_distinct) (simp add: map_keys_def)
  ultimately show ?thesis by simp
qed

theorem store_invariant_witness:
  "run example_session [] = [(''u1'', updated_record)]
   \<and> (''u1'', updated_record) \<in> set (run example_session [])
   \<and> updated_record =
       \<lparr>id' = ''u1'', timestamp = timestamp updated_record, analysis = analysis updated_record\<rparr>
   \<and> distinct (map_keys (run example_session []))"
  using store_invariant [where rs = example_session and k = "''u1''" and v = updated_record]
  by (simp add: example_simps post_analyze_def put_analyze_def delete_analyze_def map_keys_def)

end
